theory Spec2Isabelle
  imports Complex_Main "HOL-Library.Sublist" "HOL-Library.Multiset"
begin

section \<open>Python values used by the Moltbook reader\<close>

text \<open>
  A Python \<open>str\<close> is modelled as a HOL \<open>string\<close>: one \<open>char\<close> per code point, for the
  code points 0 to 255 (HTTP header values reach the program decoded as Latin-1, and every
  literal of the program is ASCII). \<open>len\<close> is \<open>length\<close>.
\<close>

definition LF :: char where
  "LF = CHR 0x0A"

definition CR :: char where
  "CR = CHR 0x0D"

text \<open>\<open>str.isspace\<close> of one character: the white space of Unicode below code point 256.\<close>

definition py_isspace :: "char \<Rightarrow> bool" where
  "py_isspace c = ((of_char c :: nat) \<in> {9, 10, 11, 12, 13, 28, 29, 30, 31, 32, 133, 160})"

text \<open>\<open>s.rstrip()\<close>: the trailing white space is removed.\<close>

definition rstrip :: "string \<Rightarrow> string" where
  "rstrip s = rev (dropWhile py_isspace (rev s))"

text \<open>\<open>s.replace(old, new)\<close> for a one-character \<open>old\<close>.\<close>

definition replace_char :: "char \<Rightarrow> string \<Rightarrow> string \<Rightarrow> string" where
  "replace_char old new s = concat (map (\<lambda>c. if c = old then new else [c]) s)"

text \<open>The slice \<open>xs[:n]\<close>; a negative \<open>n\<close> counts from the end, as in Python.\<close>

definition slice_to :: "'a list \<Rightarrow> int \<Rightarrow> 'a list" where
  "slice_to xs n = (if 0 \<le> n then take (nat n) xs else take (length xs - nat (- n)) xs)"

text \<open>
  The values \<open>json.loads\<close> and \<open>response.json()\<close> produce. A \<open>dict\<close> is an association
  list in insertion order; a \<open>float\<close> is the rational it denotes (NaN and the infinities are
  not represented).
\<close>

datatype json =
    JNull
  | JBool bool
  | JInt int
  | JFloat rat
  | JStr string
  | JList "json list"
  | JDict "(string \<times> json) list"

text \<open>Exceptions that no handler of the program catches end the run with a traceback.\<close>

datatype pyerr =
    AttributeError
  | TypeError
  | ValueError
  | UnicodeDecodeError
  | OverflowError
  | RequestException
  | NotRenderableError
  | MarkupError
  | Unmodelled

text \<open>Sequencing of steps that may raise.\<close>

definition and_then :: "'e + 'a \<Rightarrow> ('a \<Rightarrow> 'e + 'b) \<Rightarrow> 'e + 'b" where
  "and_then m f = (case m of Inl e \<Rightarrow> Inl e | Inr x \<Rightarrow> f x)"

text \<open>Truth value of a Python object, as \<open>if x\<close>, \<open>not x\<close> and \<open>x or y\<close> take it.\<close>

fun truthy :: "json \<Rightarrow> bool" where
  "truthy JNull = False"
| "truthy (JBool b) = b"
| "truthy (JInt i) = (i \<noteq> 0)"
| "truthy (JFloat r) = (r \<noteq> 0)"
| "truthy (JStr s) = (s \<noteq> [])"
| "truthy (JList xs) = (xs \<noteq> [])"
| "truthy (JDict kvs) = (kvs \<noteq> [])"

text \<open>\<open>x or y\<close>.\<close>

definition py_or :: "json \<Rightarrow> json \<Rightarrow> json" where
  "py_or x y = (if truthy x then x else y)"

section \<open>The display helpers\<close>

text \<open>The text after \<open>text.replace("\n", " ").replace("\r", "")\<close>.\<close>

definition collapse :: "string \<Rightarrow> string" where
  "collapse s = replace_char CR [] (replace_char LF '' '' s)"

text \<open>
  \<open>truncate_text(text, max_length)\<close>. A value that is true and is not a \<open>str\<close> has no
  \<open>replace\<close> method.
\<close>

fun truncate_text :: "json \<Rightarrow> int \<Rightarrow> pyerr + string" where
  "truncate_text text max_length =
     (if \<not> truthy text then Inr []
      else case text of
        JStr s \<Rightarrow>
          (let t = collapse s in
           if int (length t) > max_length
           then Inr (rstrip (slice_to t max_length) @ ''...'')
           else Inr t)
      | _ \<Rightarrow> Inl AttributeError)"

text \<open>\<open>maybe_truncate(text, max_length, no_truncate)\<close>.\<close>

definition maybe_truncate :: "json \<Rightarrow> int \<Rightarrow> bool \<Rightarrow> pyerr + json" where
  "maybe_truncate text max_length no_truncate =
     (if no_truncate then Inr (py_or text (JStr []))
      else map_sum id JStr (truncate_text (py_or text (JStr [])) max_length))"

text \<open>\<open>dict.get(key, default)\<close>; only a \<open>dict\<close> has the method.\<close>

fun py_get :: "json \<Rightarrow> string \<Rightarrow> json \<Rightarrow> pyerr + json" where
  "py_get (JDict kvs) key dflt = Inr (case map_of kvs key of Some v \<Rightarrow> v | None \<Rightarrow> dflt)"
| "py_get _ key dflt = Inl AttributeError"

text \<open>\<open>str(n)\<close> of an \<open>int\<close>, as an f-string renders it.\<close>

fun digits :: "nat \<Rightarrow> string" where
  "digits n = (if n < 10 then [''0123456789'' ! n] else digits (n div 10) @ [''0123456789'' ! (n mod 10)])"

declare digits.simps [simp del]

definition py_str_int :: "int \<Rightarrow> string" where
  "py_str_int i = (if i < 0 then CHR ''-'' # digits (nat (- i)) else digits (nat i))"

section \<open>Credential resolution\<close>

text \<open>
  What \<open>get_api_key\<close> finds outside the program: the environment variable, and what
  \<open>CONFIG_PATH.exists()\<close>, \<open>open\<close> and \<open>json.load\<close> do with the credentials file.
\<close>

datatype config_file =
    Absent
  | Unreadable
  | Undecodable
  | Malformed
  | Loaded json

text \<open>
  \<open>Absent\<close>: \<open>exists()\<close> is false. \<open>Unreadable\<close>: \<open>open\<close> or the read raises \<open>IOError\<close>.
  \<open>Undecodable\<close>: the bytes are not text in the file's encoding, the read raises
  \<open>UnicodeDecodeError\<close> (a \<open>ValueError\<close>, neither a \<open>JSONDecodeError\<close> nor an \<open>IOError\<close>).
  \<open>Malformed\<close>: the text is not JSON, \<open>json.load\<close> raises \<open>JSONDecodeError\<close>.
  \<open>Loaded v\<close>: \<open>json.load\<close> returns \<open>v\<close>.
\<close>

record environ =
  MOLTBOOK_API_KEY :: "string option"
  credentials_json :: config_file

definition get_api_key :: "environ \<Rightarrow> pyerr + json" where
  "get_api_key env =
     (let api_key = (case MOLTBOOK_API_KEY env of None \<Rightarrow> JNull | Some k \<Rightarrow> JStr k) in
      if truthy api_key then Inr api_key
      else case credentials_json env of
        Absent \<Rightarrow> Inr JNull
      | Loaded config \<Rightarrow> py_get config ''api_key'' JNull
      | Malformed \<Rightarrow> Inr JNull
      | Unreadable \<Rightarrow> Inr JNull
      | Undecodable \<Rightarrow> Inl UnicodeDecodeError)"

section \<open>The request executor\<close>

definition BASE_URL :: string where
  "BASE_URL = ''https://www.moltbook.com/api/v1''"

definition MAX_RETRIES :: nat where
  "MAX_RETRIES = 3"

definition RETRY_STATUSES :: "int set" where
  "RETRY_STATUSES = {429, 500, 502, 503, 504}"

text \<open>
  \<open>RETRY_BACKOFF = 1.5\<close>. The powers the program takes of it (exponents below
  \<open>MAX_RETRIES\<close>) are exact in binary floating point, so the rational stands for the float.
\<close>

definition RETRY_BACKOFF :: rat where
  "RETRY_BACKOFF = 3 / 2"

text \<open>
  A header value is a literal text, or the f-string \<open>f"Bearer {api_key}"\<close> of the value
  that credential resolution returned.
\<close>

datatype header_value = Text string | Bearer json

record request =
  url :: string
  headers :: "(string \<times> header_value) list"
  params :: "(string \<times> json) list option"

text \<open>
  What the program reads of a response: the status, \<open>headers.get("Retry-After")\<close>, and
  \<open>response.json()\<close> (\<open>None\<close> when it raises \<open>JSONDecodeError\<close>).
\<close>

record response =
  status_code :: int
  retry_after :: "string option"
  body :: "json option"

text \<open>
  What \<open>requests.get\<close> does: it raises \<open>Timeout\<close>, \<open>ConnectionError\<close> or another of its
  exceptions (\<open>TooManyRedirects\<close>, \<open>InvalidHeader\<close>, ...: \<open>RequestError\<close>), or returns.
\<close>

datatype reply = Timeout | ConnectionError | RequestError | Response response

text \<open>How a call ends, and what it did on the way.\<close>

datatype outcome =
    Returned json
  | SysExit int string
  | Uncaught pyerr

text \<open>
  \<open>SysExit c msg\<close>: \<open>console.print(msg)\<close>, then \<open>sys.exit(c)\<close>. \<open>sent\<close> lists the calls
  of \<open>requests.get\<close>, \<open>slept\<close> the waits that \<open>time.sleep\<close> has completed, \<open>key_lookups\<close>
  counts the calls of \<open>get_api_key\<close>.
\<close>

record run =
  outcome :: outcome
  sent :: "request list"
  slept :: "int list"
  key_lookups :: nat

text \<open>\<open>str.isdigit\<close>: the decimal digits and the superscripts two, three and one.\<close>

definition ascii_digit :: "char \<Rightarrow> bool" where
  "ascii_digit c = (48 \<le> (of_char c :: nat) \<and> (of_char c :: nat) \<le> 57)"

definition py_isdigit :: "string \<Rightarrow> bool" where
  "py_isdigit s = (s \<noteq> [] \<and> list_all (\<lambda>c. ascii_digit c \<or> (of_char c :: nat) \<in> {178, 179, 185}) s)"

text \<open>
  \<open>int(s)\<close> for a string that passed \<open>isdigit\<close>: the decimal value; \<open>ValueError\<close> when a
  superscript digit occurs, and when the string has more than 4300 digits (the limit
  CPython sets on the conversion, \<open>sys.int_info.default_max_str_digits\<close>).
\<close>

definition py_int :: "string \<Rightarrow> pyerr + int" where
  "py_int s =
     (if length s > 4300 then Inl ValueError
      else if list_all ascii_digit s
      then Inr (foldl (\<lambda>a c. 10 * a + (int (of_char c) - 48)) 0 s)
      else Inl ValueError)"

text \<open>The value given to \<open>wait_seconds\<close>, lines 75 to 79 of the source.\<close>

definition chosen_wait :: "response \<Rightarrow> nat \<Rightarrow> pyerr + int" where
  "chosen_wait r attempt =
     (case retry_after r of
        Some h \<Rightarrow>
          if h \<noteq> [] \<and> py_isdigit h then py_int h
          else Inr \<lfloor>RETRY_BACKOFF ^ attempt\<rfloor>
      | None \<Rightarrow> Inr \<lfloor>RETRY_BACKOFF ^ attempt\<rfloor>)"

text \<open>
  \<open>time.sleep(secs)\<close> for an \<open>int\<close>: CPython counts the wait in nanoseconds in 64 bits, and
  raises \<open>OverflowError\<close> for more than 9223372036 seconds (and \<open>ValueError\<close> for a negative
  number).
\<close>

definition time_sleep :: "int \<Rightarrow> pyerr + unit" where
  "time_sleep secs =
     (if secs < 0 then Inl ValueError
      else if secs > 9223372036 then Inl OverflowError
      else Inr ())"

text \<open>
  Lines 75 to 80 of the source: the wait is chosen and slept. The result is the number of
  seconds waited, or the exception that \<open>int\<close> or \<open>time.sleep\<close> raises; no handler of
  \<open>make_request\<close> catches either.
\<close>

definition wait_seconds :: "response \<Rightarrow> nat \<Rightarrow> pyerr + int" where
  "wait_seconds r attempt =
     and_then (chosen_wait r attempt) (\<lambda>w.
     and_then (time_sleep w) (\<lambda>u. Inr w))"

definition stop :: "outcome \<Rightarrow> request \<Rightarrow> run" where
  "stop out req = \<lparr>outcome = out, sent = [req], slept = [], key_lookups = 0\<rparr>"

text \<open>
  The loop \<open>for attempt in range(MAX_RETRIES + 1)\<close> with its handlers; the list holds the
  attempt numbers still to run. \<open>server req n\<close> is what the n-th GET of the call meets.
\<close>

fun attempts :: "(request \<Rightarrow> nat \<Rightarrow> reply) \<Rightarrow> request \<Rightarrow> nat list \<Rightarrow> run" where
  "attempts server req [] = \<lparr>outcome = Returned JNull, sent = [], slept = [], key_lookups = 0\<rparr>"
| "attempts server req (attempt # rest) =
     (case server req attempt of
        Timeout \<Rightarrow> stop (SysExit 1 ''[red]Error: Request timed out[/red]'') req
      | ConnectionError \<Rightarrow> stop (SysExit 1 ''[red]Error: Could not connect to Moltbook[/red]'') req
      | RequestError \<Rightarrow> stop (Uncaught RequestException) req
      | Response r \<Rightarrow>
          if status_code r \<in> RETRY_STATUSES \<and> attempt < MAX_RETRIES then
            (case wait_seconds r attempt of
               Inl e \<Rightarrow> stop (Uncaught e) req
             | Inr w \<Rightarrow>
                 (let later = attempts server req rest
                  in later\<lparr>sent := req # sent later, slept := w # slept later\<rparr>))
          else if 400 \<le> status_code r \<and> status_code r < 600 then
            stop (SysExit 1 (''[red]Error: HTTP '' @ py_str_int (status_code r) @ ''[/red]'')) req
          else
            (case body r of
               None \<Rightarrow> stop (SysExit 1 ''[red]Error: Invalid JSON response[/red]'') req
             | Some b \<Rightarrow> stop (Returned b) req))"

text \<open>Lines 61 to 67: the URL and the headers, built once before the loop.\<close>

definition build_request ::
  "environ \<Rightarrow> string \<Rightarrow> (string \<times> json) list option \<Rightarrow> bool \<Rightarrow> pyerr + request" where
  "build_request env endpoint ps auth =
     (let hs = [(''User-Agent'', Text ''Moltbook-Reader/1.0'')] in
      if auth then
        (case get_api_key env of
           Inl e \<Rightarrow> Inl e
         | Inr api_key \<Rightarrow>
             Inr \<lparr>url = BASE_URL @ ''/'' @ endpoint,
                  headers = (if truthy api_key
                             then hs @ [(''Authorization'', Bearer api_key)] else hs),
                  params = ps\<rparr>)
      else Inr \<lparr>url = BASE_URL @ ''/'' @ endpoint, headers = hs, params = ps\<rparr>)"

definition make_request ::
  "environ \<Rightarrow> (request \<Rightarrow> nat \<Rightarrow> reply) \<Rightarrow> string \<Rightarrow> (string \<times> json) list option \<Rightarrow> bool \<Rightarrow> run" where
  "make_request env server endpoint ps auth =
     (case build_request env endpoint ps auth of
        Inl e \<Rightarrow> \<lparr>outcome = Uncaught e, sent = [], slept = [], key_lookups = 1\<rparr>
      | Inr req \<Rightarrow>
          (attempts server req [0..<MAX_RETRIES + 1])\<lparr>key_lookups := (if auth then 1 else 0)\<rparr>)"

text \<open>
  The number a string of decimal digits denotes, by place value: what a numeric retry hint
  asks for.
\<close>

fun decimal_value :: "string \<Rightarrow> int" where
  "decimal_value [] = 0"
| "decimal_value (c # cs) = (int (of_char c) - 48) * 10 ^ length cs + decimal_value cs"

text \<open>Example environments and servers, for the concrete runs below.\<close>

definition env_with_key :: environ where
  "env_with_key = \<lparr>MOLTBOOK_API_KEY = Some ''k'', credentials_json = Absent\<rparr>"

definition busy_twice :: "request \<Rightarrow> nat \<Rightarrow> reply" where
  "busy_twice req n =
     (if n < 2 then Response \<lparr>status_code = 503, retry_after = None, body = None\<rparr>
      else Response \<lparr>status_code = 200, retry_after = None, body = Some (JDict [])\<rparr>)"

definition always_busy :: "request \<Rightarrow> nat \<Rightarrow> reply" where
  "always_busy req n = Response \<lparr>status_code = 503, retry_after = None, body = None\<rparr>"

text \<open>
  Servers that answer the first GET with status 429 and a \<open>Retry-After\<close> header, then with
  status 200 and the body \<open>{}\<close>: the header holds the one character superscript two
  (byte B2), or the number 10000000000.
\<close>

definition hint_then_ok :: "string \<Rightarrow> request \<Rightarrow> nat \<Rightarrow> reply" where
  "hint_then_ok h req n =
     (if n < 1 then Response \<lparr>status_code = 429, retry_after = Some h, body = None\<rparr>
      else Response \<lparr>status_code = 200, retry_after = None, body = Some (JDict [])\<rparr>)"

definition superscript_two :: string where
  "superscript_two = [CHR 0xB2]"

definition posts_request :: request where
  "posts_request = \<lparr>url = BASE_URL @ ''/posts'',
     headers = [(''User-Agent'', Text ''Moltbook-Reader/1.0'')], params = None\<rparr>"


section \<open>The timestamp helper\<close>

text \<open>
  \<open>datetime.fromisoformat\<close> and \<open>datetime.strftime\<close> belong to the Python standard library,
  not to this program. They are modelled after the library reference: \<open>fromisoformat\<close>
  accepts \<open>YYYY-MM-DD[*HH[:MM[:SS[.fff[fff]]]][+HH:MM[:SS[.ffffff]]]]\<close>, where \<open>*\<close> is any one
  character (the format of Python 3.7 to 3.10). Python 3.11 and later differ from the model
  on other strings: they accept further ISO 8601 forms, and reject a date followed by a lone
  separator. \<open>strftime\<close> pads the year with zeros to four digits, as the reference shows
  it; the C library of some platforms does not, for years below 1000. \<open>None\<close> stands for
  the exception raised on any other string.
\<close>

record datetime =
  year :: int
  month :: int
  day :: int
  hour :: int
  minute :: int
  second :: int
  microsecond :: int
  utcoffset :: "int option"

definition parse_digits :: "string \<Rightarrow> int option" where
  "parse_digits s = (if s \<noteq> [] \<and> list_all ascii_digit s then Some (decimal_value s) else None)"

definition parse_isoformat_date :: "string \<Rightarrow> (int \<times> int \<times> int) option" where
  "parse_isoformat_date d =
     (if length d = 10 \<and> d ! 4 = CHR ''-'' \<and> d ! 7 = CHR ''-'' then
        (case (parse_digits (take 4 d), parse_digits (take 2 (drop 5 d)),
               parse_digits (take 2 (drop 8 d))) of
           (Some y, Some m, Some dd) \<Rightarrow> Some (y, m, dd)
         | _ \<Rightarrow> None)
      else None)"

text \<open>
  Up to \<open>n + 1\<close> two-digit fields separated by colons; returns the fields read and the
  rest of the string.
\<close>

fun two_digit_fields :: "nat \<Rightarrow> string \<Rightarrow> (int list \<times> string) option" where
  "two_digit_fields n s =
     (if length s < 2 then None
      else case parse_digits (take 2 s) of
        None \<Rightarrow> None
      | Some v \<Rightarrow>
          (case (n, drop 2 s) of
             (_, []) \<Rightarrow> Some ([v], [])
           | (0, rest) \<Rightarrow> Some ([v], rest)
           | (Suc m, c # rest) \<Rightarrow>
               if c \<noteq> CHR '':'' then None
               else map_option (\<lambda>(vs, r). (v # vs, r)) (two_digit_fields m rest)))"

text \<open>\<open>HH[:MM[:SS[.fff[fff]]]]\<close>: hour, minute, second, microsecond.\<close>

definition parse_hh_mm_ss_ff :: "string \<Rightarrow> (int \<times> int \<times> int \<times> int) option" where
  "parse_hh_mm_ss_ff tstr =
     (case two_digit_fields 2 tstr of
        None \<Rightarrow> None
      | Some (vs, rest) \<Rightarrow>
          (let comps = vs @ replicate (3 - length vs) 0 in
           case rest of
             [] \<Rightarrow> Some (comps ! 0, comps ! 1, comps ! 2, 0)
           | c # fr \<Rightarrow>
               if c \<noteq> CHR ''.'' then None
               else if length fr \<noteq> 3 \<and> length fr \<noteq> 6 then None
               else (case parse_digits fr of
                       None \<Rightarrow> None
                     | Some us \<Rightarrow>
                         Some (comps ! 0, comps ! 1, comps ! 2,
                               if length fr = 3 then us * 1000 else us))))"

text \<open>The position of the first \<open>-\<close>, else of the first \<open>+\<close>, as \<open>str.find\<close> gives it.\<close>

definition find_char :: "char \<Rightarrow> string \<Rightarrow> nat option" where
  "find_char c s = (if c \<in> set s then Some (length (takeWhile (\<lambda>x. x \<noteq> c) s)) else None)"

definition tz_position :: "string \<Rightarrow> nat option" where
  "tz_position tstr =
     (case find_char CHR ''-'' tstr of
        Some i \<Rightarrow> Some i
      | None \<Rightarrow> find_char CHR ''+'' tstr)"

text \<open>
  The time and the offset from UTC in microseconds (\<open>None\<close>: no offset given). An offset
  must be less than 24 hours.
\<close>

definition parse_isoformat_time :: "string \<Rightarrow> ((int \<times> int \<times> int \<times> int) \<times> int option) option" where
  "parse_isoformat_time tstr =
     (if length tstr < 2 then None
      else case tz_position tstr of
        None \<Rightarrow> map_option (\<lambda>t. (t, None)) (parse_hh_mm_ss_ff tstr)
      | Some i \<Rightarrow>
          (case parse_hh_mm_ss_ff (take i tstr) of
             None \<Rightarrow> None
           | Some t \<Rightarrow>
               (let tzstr = drop (i + 1) tstr in
                if length tzstr \<notin> {5, 8, 15} then None
                else case parse_hh_mm_ss_ff tzstr of
                  None \<Rightarrow> None
                | Some (h, m, s, us) \<Rightarrow>
                    (let off = ((h * 60 + m) * 60 + s) * 1000000 + us in
                     if off \<ge> 24 * 3600 * 1000000 then None
                     else Some (t, Some (if tstr ! i = CHR ''-'' then - off else off))))))"

definition is_leap :: "int \<Rightarrow> bool" where
  "is_leap y = (y mod 4 = 0 \<and> (y mod 100 \<noteq> 0 \<or> y mod 400 = 0))"

definition days_in_month :: "int \<Rightarrow> int \<Rightarrow> int" where
  "days_in_month y m =
     (if m = 2 then (if is_leap y then 29 else 28)
      else if m \<in> {4, 6, 9, 11} then 30 else 31)"

definition fromisoformat :: "string \<Rightarrow> datetime option" where
  "fromisoformat date_string =
     (case parse_isoformat_date (take 10 date_string) of
        None \<Rightarrow> None
      | Some (y, m, d) \<Rightarrow>
          (case (if drop 11 date_string = [] then Some ((0, 0, 0, 0), None)
                 else parse_isoformat_time (drop 11 date_string)) of
             None \<Rightarrow> None
           | Some ((hh, mm, ss, us), tz) \<Rightarrow>
               if 1 \<le> y \<and> y \<le> 9999 \<and> 1 \<le> m \<and> m \<le> 12 \<and> 1 \<le> d \<and> d \<le> days_in_month y m
                  \<and> hh \<le> 23 \<and> mm \<le> 59 \<and> ss \<le> 59
               then Some \<lparr>year = y, month = m, day = d, hour = hh, minute = mm, second = ss,
                          microsecond = us, utcoffset = tz\<rparr>
               else None))"

text \<open>A number in decimal, padded with zeros on the left to a width.\<close>

definition zero_padded :: "nat \<Rightarrow> int \<Rightarrow> string" where
  "zero_padded w i = replicate (w - length (py_str_int i)) CHR ''0'' @ py_str_int i"

text \<open>\<open>dt.strftime("%Y-%m-%d %H:%M")\<close>.\<close>

definition strftime :: "datetime \<Rightarrow> string option" where
  "strftime dt =
     Some (zero_padded 4 (year dt) @ ''-'' @ zero_padded 2 (month dt) @ ''-''
           @ zero_padded 2 (day dt) @ '' '' @ zero_padded 2 (hour dt) @ '':''
           @ zero_padded 2 (minute dt))"

text \<open>
  \<open>format_timestamp(iso_string)\<close>, with the two library calls as parameters. The bare
  \<open>except\<close> returns the argument whatever either call raises.
\<close>

definition format_timestamp ::
  "(string \<Rightarrow> datetime option) \<Rightarrow> (datetime \<Rightarrow> string option) \<Rightarrow> string \<Rightarrow> string" where
  "format_timestamp parse fmt iso_string =
     (case parse (replace_char CHR ''Z'' ''+00:00'' iso_string) of
        None \<Rightarrow> iso_string
      | Some dt \<Rightarrow> (case fmt dt of None \<Rightarrow> iso_string | Some text \<Rightarrow> text))"


section \<open>The response renderer\<close>

text \<open>
  What a command prints is recorded as the sequence of its \<open>console.print\<close> calls with the
  values handed to them; the layout Rich gives them is not modelled. A cell or field holds
  the value itself (\<open>Val\<close>, shown as \<open>str\<close> shows it) or names the conversion the program
  applies to it: \<open>str(v)\<close>, \<open>v.upper()\<close>, the format specs \<open>>6\<close>, \<open>.0%\<close> and \<open>,\<close>, or an
  f-string over several values. \<open>PrintF\<close> is an f-string handed to \<open>console.print\<close>: its
  text with the values that fill its fields; \<open>PrintValue\<close> is \<open>console.print(v)\<close>. The
  line breaks and the pictographs in the program's literals are left out of the texts (the
  column the program heads with a thumbs-up sign is headed \<open>Upvotes\<close> here).
\<close>

datatype cell =
    Val json
  | StrOf json
  | Upper json
  | Width json
  | Percent json
  | Grouped json
  | Formatted string "json list"

datatype out =
    Print string
  | PrintF string "cell list"
  | PrintValue json
  | Blank
  | PrintJson json
  | PrintTable "string list" "cell list list"
  | PrintPanel string "cell list"

text \<open>
  Rich is a library, not part of this program, and a parameter of the renderers: \<open>console\<close>
  tells for a print call whether Rich prints it (\<open>None\<close>) or raises (for instance
  \<open>MarkupError\<close>, when a text from the envelope holds a closing tag that matches no open
  one). The fixed texts of the program are sound markup and are always printed.
\<close>

definition emit :: "(out \<Rightarrow> pyerr option) \<Rightarrow> out \<Rightarrow> pyerr + out list" where
  "emit console item =
     (case item of
        Print text \<Rightarrow> Inr [item]
      | Blank \<Rightarrow> Inr [item]
      | _ \<Rightarrow> (case console item of None \<Rightarrow> Inr [item] | Some e \<Rightarrow> Inl e))"

text \<open>Steps run one after the other; the first exception ends them.\<close>

definition in_order :: "('e + 'a list) list \<Rightarrow> 'e + 'a list" where
  "in_order steps =
     foldr (\<lambda>step rest. and_then step (\<lambda>xs. and_then rest (\<lambda>ys. Inr (xs @ ys)))) steps (Inr [])"


text \<open>A renderer returns what it printed and the envelope as it leaves it.\<close>

definition returning :: "json \<Rightarrow> pyerr + out list \<Rightarrow> pyerr + out list \<times> json" where
  "returning data printed = and_then printed (\<lambda>outs. Inr (outs, data))"






text \<open>
  \<open>format_timestamp\<close> applied to a value of the envelope: on anything but a \<open>str\<close> the
  \<open>replace\<close> call raises and the handler returns the value.
\<close>

definition format_timestamp_of :: "json \<Rightarrow> json" where
  "format_timestamp_of v =
     (case v of JStr s \<Rightarrow> JStr (format_timestamp fromisoformat strftime s) | _ \<Rightarrow> v)"

text \<open>\<open>r.get(outer, {}).get(inner, dflt)\<close>.\<close>

definition get_nested :: "json \<Rightarrow> string \<Rightarrow> string \<Rightarrow> json \<Rightarrow> pyerr + json" where
  "get_nested r outer inner dflt =
     and_then (py_get r outer (JDict [])) (\<lambda>d. py_get d inner dflt)"




text \<open>The raw mode of every command: \<open>console.print_json(json.dumps(data))\<close>.\<close>

definition render_raw :: "(out \<Rightarrow> pyerr option) \<Rightarrow> json \<Rightarrow> pyerr + out list \<times> json" where
  "render_raw console data = returning data (emit console (PrintJson data))"

text \<open>
  Each renderer below is the part of a command after \<open>make_request\<close> and the raw-mode
  test.
\<close>

subsection \<open>search\<close>



subsection \<open>browse\<close>




subsection \<open>comments\<close>



subsection \<open>fetch\<close>

definition render_fetch ::
  "(out \<Rightarrow> pyerr option) \<Rightarrow> string \<Rightarrow> json \<Rightarrow> pyerr + out list \<times> json" where
  "render_fetch console post_id data =
     and_then (py_get data ''post'' JNull) (\<lambda>post.
     if \<not> truthy post
     then returning data (emit console (Print ''[red]Post not found[/red]''))
     else
       and_then (py_get post ''title'' (JStr ''No title'')) (\<lambda>title.
       and_then (py_get post ''content'' (JStr [])) (\<lambda>content.
       and_then (get_nested post ''author'' ''name'' (JStr ''Unknown'')) (\<lambda>author.
       and_then (py_get post ''upvotes'' (JInt 0)) (\<lambda>upvotes.
       and_then (py_get post ''downvotes'' (JInt 0)) (\<lambda>downvotes.
       and_then (py_get post ''comment_count'' (JInt 0)) (\<lambda>comment_count.
       and_then (py_get post ''created_at'' (JStr [])) (\<lambda>created.
       and_then (get_nested post ''submolt'' ''display_name'' (JStr ''General'')) (\<lambda>submolt.
       returning data (in_order
         [emit console
            (PrintPanel ''Moltbook Post''
               [Val title, Val author, Val (format_timestamp_of created), Val submolt,
                Val upvotes, Val downvotes, Val comment_count]),
          (if truthy content
           then in_order [emit console Blank, emit console (PrintValue content)]
           else Inr []),
          emit console Blank,
          emit console (PrintF ''[dim]Post ID: {post_id}[/dim]'' [Val (JStr post_id)])]))))))))))"

subsection \<open>submolts\<close>









subsection \<open>stats\<close>




subsection \<open>whoami\<close>



section \<open>Commands\<close>

text \<open>
  A command ends with exit status 0 when its function returns, with the status given to
  \<open>sys.exit\<close>, or with status 1 and a traceback when an exception is not caught. For a
  command that an exception ends, only the exit status is recorded: what it printed before
  the exception is not.
\<close>

record finished =
  printed :: "out list"
  exit_status :: int

definition finish :: "run \<Rightarrow> (json \<Rightarrow> pyerr + out list \<times> json) \<Rightarrow> finished" where
  "finish r render =
     (case outcome r of
        SysExit code msg \<Rightarrow> \<lparr>printed = [Print msg], exit_status = code\<rparr>
      | Uncaught e \<Rightarrow> \<lparr>printed = [], exit_status = 1\<rparr>
      | Returned data \<Rightarrow>
          (case render data of
             Inl e \<Rightarrow> \<lparr>printed = [], exit_status = 1\<rparr>
           | Inr (outs, data') \<Rightarrow> \<lparr>printed = outs, exit_status = 0\<rparr>))"

text \<open>\<open>fetch(post_id, json_out)\<close>.\<close>

definition fetch ::
  "environ \<Rightarrow> (request \<Rightarrow> nat \<Rightarrow> reply) \<Rightarrow> (out \<Rightarrow> pyerr option) \<Rightarrow> string \<Rightarrow> bool \<Rightarrow> finished" where
  "fetch env server console post_id json_out =
     finish (make_request env server (''posts/'' @ post_id) None False)
       (if json_out then render_raw console else render_fetch console post_id)"



definition replies_with :: "json \<Rightarrow> request \<Rightarrow> nat \<Rightarrow> reply" where
  "replies_with b req n = Response \<lparr>status_code = 200, retry_after = None, body = Some b\<rparr>"

definition prints_all :: "out \<Rightarrow> pyerr option" where
  "prints_all item = None"


section \<open>Properties of the display helpers\<close>

lemma rstrip_prefix: "prefix (rstrip s) s"
proof -
  have "rev s = takeWhile py_isspace (rev s) @ dropWhile py_isspace (rev s)" by simp
  then have "s = rev (dropWhile py_isspace (rev s)) @ rev (takeWhile py_isspace (rev s))"
    by (metis rev_append rev_rev_ident)
  then show ?thesis unfolding rstrip_def by (metis prefixI)
qed

lemma length_rstrip: "length (rstrip s) \<le> length s"
  using length_dropWhile_le [of py_isspace "rev s"] by (simp add: rstrip_def)

lemma rstrip_keeps: "s = [] \<or> \<not> py_isspace (last s) \<Longrightarrow> rstrip s = s"
  by (cases s rule: rev_cases) (auto simp: rstrip_def)

lemma rstrip_drops:
  assumes "s \<noteq> []" and "py_isspace (last s)"
  shows "length (rstrip s) < length s"
proof (cases s rule: rev_cases)
  case Nil
  with assms show ?thesis by simp
next
  case (snoc ys y)
  have "length (dropWhile py_isspace (rev ys)) \<le> length ys"
    using length_dropWhile_le [of py_isspace "rev ys"] by simp
  with snoc assms show ?thesis by (simp add: rstrip_def)
qed

text \<open>
  C1 (as amended). For a text whose newline-collapsed form is longer than a non-negative
  maximum, \<open>truncate_text\<close> returns the first \<open>max\<close> characters of the collapsed text with
  their trailing white space stripped, followed by the three-character ellipsis: the part
  before the ellipsis is a prefix of the collapsed text, the length is at most \<open>max + 3\<close>,
  and it is exactly \<open>max + 3\<close> if and only if the clipped prefix does not end in white space.
  For a text at or under the maximum the result is the collapsed text. With no-truncate
  active, \<open>maybe_truncate\<close> returns the text as it is.
\<close>

theorem truncate_text_clips:
  assumes "0 \<le> m"
  shows "(int (length (collapse s)) > m \<longrightarrow>
           truncate_text (JStr s) m = Inr (rstrip (take (nat m) (collapse s)) @ ''...'')
           \<and> prefix (rstrip (take (nat m) (collapse s))) (collapse s)
           \<and> length (rstrip (take (nat m) (collapse s)) @ ''...'') \<le> nat m + 3
           \<and> ((m = 0 \<or> \<not> py_isspace (collapse s ! (nat m - 1))) \<longleftrightarrow>
                length (rstrip (take (nat m) (collapse s)) @ ''...'') = nat m + 3))
       \<and> (int (length (collapse s)) \<le> m \<longrightarrow> truncate_text (JStr s) m = Inr (collapse s))
       \<and> maybe_truncate (JStr s) m True = Inr (JStr s)"
proof (intro conjI impI)
  assume long: "m < int (length (collapse s))"
  let ?t = "collapse s" and ?p = "take (nat m) (collapse s)"
  from long assms have ne: "s \<noteq> []" by (auto simp: collapse_def replace_char_def)
  from long assms have len: "length ?p = nat m" by simp
  show "truncate_text (JStr s) m = Inr (rstrip ?p @ ''...'')"
    using long assms ne by (simp add: slice_to_def)
  show "prefix (rstrip ?p) ?t"
    using rstrip_prefix [of ?p] take_is_prefix [of "nat m" ?t] by (rule prefix_order.trans)
  show "length (rstrip ?p @ ''...'') \<le> nat m + 3"
    using length_rstrip [of ?p] len by simp
  show "(m = 0 \<or> \<not> py_isspace (?t ! (nat m - 1))) \<longleftrightarrow> length (rstrip ?p @ ''...'') = nat m + 3"
  proof (cases "m = 0")
    case True
    then show ?thesis by (simp add: rstrip_def)
  next
    case False
    with assms have pos: "0 < nat m" by simp
    with len have pne: "?p \<noteq> []" by auto
    have lastp: "last ?p = ?t ! (nat m - 1)"
      using pne len pos by (simp add: last_conv_nth)
    show ?thesis
    proof (cases "py_isspace (?t ! (nat m - 1))")
      case True
      from True lastp have "py_isspace (last ?p)" by (simp only:)
      from rstrip_drops [OF pne this] have "length (rstrip ?p) < nat m" unfolding len .
      with True False show ?thesis by simp
    next
      case nsp: False
      with lastp have "rstrip ?p = ?p" by (simp add: rstrip_keeps)
      with nsp len show ?thesis by simp
    qed
  qed
next
  assume "int (length (collapse s)) \<le> m"
  then show "truncate_text (JStr s) m = Inr (collapse s)"
    by (auto simp: collapse_def replace_char_def)
next
  show "maybe_truncate (JStr s) m True = Inr (JStr s)"
    by (cases s) (simp_all add: maybe_truncate_def py_or_def)
qed

theorem truncate_text_clips_witness:
  "(0::int) \<le> 5
   \<and> int (length (collapse ''hello world'')) > 5
   \<and> truncate_text (JStr ''hello world'') 5 = Inr ''hello...''
   \<and> int (length (collapse ''hi'')) \<le> 5
   \<and> truncate_text (JStr ''hi'') 5 = Inr ''hi''
   \<and> maybe_truncate (JStr ''hi'') 5 True = Inr (JStr ''hi'')"
  using truncate_text_clips [of 5 "''hello world''"] truncate_text_clips [of 5 "''hi''"]
  by (simp add: collapse_def replace_char_def rstrip_def py_isspace_def LF_def CR_def)

text \<open>
  The claim as stated (length exactly \<open>max + 3\<close> for every longer text) fails where the
  clipped prefix ends in white space: six characters clipped to three give four.
\<close>

theorem truncate_text_length_counterexample:
  "int (length (collapse ''a  bcd'')) > 3
   \<and> truncate_text (JStr ''a  bcd'') 3 = Inr ''a...''
   \<and> length ''a...'' \<noteq> 3 + 3"
  by (simp add: collapse_def replace_char_def rstrip_def slice_to_def py_isspace_def LF_def CR_def)

section \<open>Properties of the request executor\<close>

lemma foldl_decimal:
  "foldl (\<lambda>a c. 10 * a + (int (of_char c) - 48)) a s = a * 10 ^ length s + decimal_value s"
  by (induction s arbitrary: a) (simp_all add: algebra_simps)

lemma py_int_decimal:
  "list_all ascii_digit s \<Longrightarrow> length s \<le> 4300 \<Longrightarrow> py_int s = Inr (decimal_value s)"
  by (simp add: py_int_def foldl_decimal)

lemma decimal_value_nonneg: "list_all ascii_digit s \<Longrightarrow> 0 \<le> decimal_value s"
  by (induction s) (auto simp: ascii_digit_def)

lemma ascii_digit_isdigit: "s \<noteq> [] \<Longrightarrow> list_all ascii_digit s \<Longrightarrow> py_isdigit s"
  by (auto simp: py_isdigit_def list_all_iff)

lemma wait_seconds_hint:
  assumes "retry_after r = Some h" and "h \<noteq> []" and "list_all ascii_digit h"
    and "length h \<le> 4300" and "decimal_value h \<le> 9223372036"
  shows "wait_seconds r n = Inr (decimal_value h)"
  using assms decimal_value_nonneg [of h]
  by (simp add: wait_seconds_def chosen_wait_def time_sleep_def and_then_def
      ascii_digit_isdigit py_int_decimal)

lemma backoff_values:
  assumes "n < MAX_RETRIES"
  shows "\<lfloor>(3 / 2 :: rat) ^ n\<rfloor> = (if n = 2 then 2 else 1)"
proof -
  from assms have "n = 0 \<or> n = 1 \<or> n = 2" by (auto simp: MAX_RETRIES_def)
  moreover have "\<lfloor>(3 / 2 :: rat)\<rfloor> = 1" by (rule floor_unique) simp_all
  moreover have "\<lfloor>(9 / 4 :: rat)\<rfloor> = 2" by (rule floor_unique) simp_all
  ultimately show ?thesis by (auto simp: power2_eq_square)
qed

lemma wait_seconds_backoff:
  assumes "\<forall>h. retry_after r = Some h \<longrightarrow> \<not> py_isdigit h" and "n < MAX_RETRIES"
  shows "wait_seconds r n = Inr \<lfloor>(3 / 2 :: rat) ^ n\<rfloor>"
proof -
  from assms(1) have "chosen_wait r n = Inr \<lfloor>(3 / 2 :: rat) ^ n\<rfloor>"
    by (auto simp: chosen_wait_def RETRY_BACKOFF_def split: option.splits)
  moreover have "time_sleep \<lfloor>(3 / 2 :: rat) ^ n\<rfloor> = Inr ()"
    unfolding backoff_values [OF assms(2)] by (simp add: time_sleep_def)
  ultimately show ?thesis by (simp add: wait_seconds_def and_then_def)
qed

lemma wait_seconds_no_hint:
  "n < MAX_RETRIES \<Longrightarrow> wait_seconds \<lparr>status_code = c, retry_after = None, body = b\<rparr> n =
     Inr (if n = 2 then 2 else 1)"
  using wait_seconds_backoff [of "\<lparr>status_code = c, retry_after = None, body = b\<rparr>" n]
  by (simp add: backoff_values)

lemma attempts_retry:
  assumes "\<forall>i. a \<le> i \<and> i < a + k \<longrightarrow>
             (\<exists>r. server req i = Response r \<and> status_code r \<in> RETRY_STATUSES
                  \<and> wait_seconds r i = Inr (ws i))"
    and "a + k \<le> MAX_RETRIES"
  shows "attempts server req ([a..<a + k] @ ns) =
           (attempts server req ns)
             \<lparr>sent := replicate k req @ sent (attempts server req ns),
              slept := map ws [a..<a + k] @ slept (attempts server req ns)\<rparr>"
  using assms
proof (induction k arbitrary: a)
  case 0
  then show ?case by simp
next
  case (Suc k)
  from Suc.prems(1) obtain r where r: "server req a = Response r"
    "status_code r \<in> RETRY_STATUSES" "wait_seconds r a = Inr (ws a)"
    by (auto dest: spec [of _ a])
  from Suc.prems(2) have lt: "a < MAX_RETRIES" by simp
  have up: "[a..<a + Suc k] = a # [Suc a..<Suc a + k]"
    by (simp add: upt_conv_Cons)
  have ih: "attempts server req ([Suc a..<Suc a + k] @ ns) =
           (attempts server req ns)
             \<lparr>sent := replicate k req @ sent (attempts server req ns),
              slept := map ws [Suc a..<Suc a + k] @ slept (attempts server req ns)\<rparr>"
    using Suc.prems by (intro Suc.IH) auto
  show ?case
    unfolding up using ih by (simp add: r lt Let_def del: upt_Suc)
qed

lemma range_split:
  assumes "k \<le> MAX_RETRIES"
  shows "[0..<MAX_RETRIES + 1] = [0..<0 + k] @ k # [Suc k..<MAX_RETRIES + 1]"
proof -
  have "[0..<k + (MAX_RETRIES + 1 - k)] = [0..<k] @ [k..<k + (MAX_RETRIES + 1 - k)]"
    by (rule upt_add_eq_append) simp
  with assms have "[0..<MAX_RETRIES + 1] = [0..<k] @ [k..<MAX_RETRIES + 1]"
    by simp
  moreover from assms have "[k..<MAX_RETRIES + 1] = k # [Suc k..<MAX_RETRIES + 1]"
    by (intro upt_conv_Cons) simp
  ultimately show ?thesis by simp
qed

lemma attempts_sent: "q \<in> set (sent (attempts server req ns)) \<Longrightarrow> q = req"
  by (induction ns arbitrary: q)
     (auto simp: stop_def Let_def split: reply.splits sum.splits option.splits if_splits)


lemma attempts_last:
  assumes "server req k = Response r"
    and "\<not> (status_code r \<in> RETRY_STATUSES \<and> k < MAX_RETRIES)"
  shows "attempts server req (k # rest) =
     (if 400 \<le> status_code r \<and> status_code r < 600 then
        stop (SysExit 1 (''[red]Error: HTTP '' @ py_str_int (status_code r) @ ''[/red]'')) req
      else case body r of
             None \<Rightarrow> stop (SysExit 1 ''[red]Error: Invalid JSON response[/red]'') req
           | Some b \<Rightarrow> stop (Returned b) req)"
  using assms by auto

lemma run_after_retries:
  assumes built: "build_request env endpoint ps auth = Inr req"
    and retry: "\<forall>i<k. \<exists>r. server req i = Response r \<and> status_code r \<in> RETRY_STATUSES
                        \<and> wait_seconds r i = Inr (ws i)"
    and k: "k \<le> MAX_RETRIES"
  shows "make_request env server endpoint ps auth =
     (let later = attempts server req (k # [Suc k..<MAX_RETRIES + 1]) in
      later\<lparr>sent := replicate k req @ sent later, slept := map ws [0..<k] @ slept later,
             key_lookups := (if auth then 1 else 0)\<rparr>)"
proof -
  have "attempts server req ([0..<0 + k] @ k # [Suc k..<MAX_RETRIES + 1]) =
           (attempts server req (k # [Suc k..<MAX_RETRIES + 1]))
             \<lparr>sent := replicate k req @ sent (attempts server req (k # [Suc k..<MAX_RETRIES + 1])),
              slept := map ws [0..<0 + k] @ slept (attempts server req (k # [Suc k..<MAX_RETRIES + 1]))\<rparr>"
    using retry k by (intro attempts_retry) auto
  then show ?thesis
    unfolding make_request_def built range_split [OF k] Let_def by simp
qed

lemma nth_wait:
  assumes built: "build_request env endpoint ps auth = Inr req"
    and retry: "\<forall>i<n. \<exists>r w. server req i = Response r \<and> status_code r \<in> RETRY_STATUSES
                        \<and> wait_seconds r i = Inr w"
    and n: "n < MAX_RETRIES"
    and here: "server req n = Response r" "status_code r \<in> RETRY_STATUSES"
      "wait_seconds r n = Inr w"
  shows "n < length (slept (make_request env server endpoint ps auth))
         \<and> slept (make_request env server endpoint ps auth) ! n = w"
proof -
  from retry here have "\<forall>i<Suc n. \<exists>w r. server req i = Response r
      \<and> status_code r \<in> RETRY_STATUSES \<and> wait_seconds r i = Inr w"
    by (auto simp: less_Suc_eq)
  then obtain ws where ws: "\<forall>i<Suc n. \<exists>r. server req i = Response r
      \<and> status_code r \<in> RETRY_STATUSES \<and> wait_seconds r i = Inr (ws i)"
    by metis
  with here have wn: "ws n = w" by auto
  from n have k: "Suc n \<le> MAX_RETRIES" by simp
  have run: "make_request env server endpoint ps auth =
     (let later = attempts server req (Suc n # [Suc (Suc n)..<MAX_RETRIES + 1]) in
      later\<lparr>sent := replicate (Suc n) req @ sent later,
             slept := map ws [0..<Suc n] @ slept later,
             key_lookups := (if auth then 1 else 0)\<rparr>)"
    using built ws k by (rule run_after_retries)
  have "n < length (map ws [0..<Suc n])" by simp
  moreover have "map ws [0..<Suc n] ! n = w" using wn by (simp add: nth_append)
  ultimately show ?thesis
    unfolding run Let_def by (simp add: nth_append del: upt_Suc)
qed

lemma build_posts: "build_request env_with_key ''posts'' None False = Inr posts_request"
  by (simp add: build_request_def posts_request_def)

text \<open>
  What the loop does as long as every wait goes through. Let the first \<open>k\<close> replies (\<open>k\<close>
  at most 3) carry a retryable status, each followed by its wait. If the next reply has a
  2xx status and a JSON body, the call returns that body, after \<open>k + 1\<close> GETs. If \<open>k = 3\<close>
  and the fourth reply is retryable too, the call prints \<open>HTTP {status}\<close> and exits with
  status 1 after four GETs. If the next reply has an unsuccessful status outside the
  retryable set, the call prints \<open>HTTP {status}\<close> and exits with status 1 at once.
\<close>

lemma retry_budget:
  assumes built: "build_request env endpoint ps auth = Inr req"
    and retry: "\<forall>i<k. \<exists>r w. server req i = Response r \<and> status_code r \<in> RETRY_STATUSES
                        \<and> wait_seconds r i = Inr w"
    and k: "k \<le> MAX_RETRIES"
    and last: "server req k = Response r"
  shows "(200 \<le> status_code r \<and> status_code r < 300 \<and> body r = Some b \<longrightarrow>
            outcome (make_request env server endpoint ps auth) = Returned b
            \<and> length (sent (make_request env server endpoint ps auth)) = k + 1)
       \<and> (k = MAX_RETRIES \<and> status_code r \<in> RETRY_STATUSES \<longrightarrow>
            outcome (make_request env server endpoint ps auth) =
              SysExit 1 (''[red]Error: HTTP '' @ py_str_int (status_code r) @ ''[/red]'')
            \<and> length (sent (make_request env server endpoint ps auth)) = 4)
       \<and> (status_code r \<notin> RETRY_STATUSES \<and> 400 \<le> status_code r \<and> status_code r < 600 \<longrightarrow>
            outcome (make_request env server endpoint ps auth) =
              SysExit 1 (''[red]Error: HTTP '' @ py_str_int (status_code r) @ ''[/red]'')
            \<and> length (sent (make_request env server endpoint ps auth)) = k + 1)"
proof -
  from retry have "\<forall>i<k. \<exists>w r. server req i = Response r \<and> status_code r \<in> RETRY_STATUSES
                        \<and> wait_seconds r i = Inr w" by blast
  then obtain ws where ws: "\<forall>i<k. \<exists>r. server req i = Response r
      \<and> status_code r \<in> RETRY_STATUSES \<and> wait_seconds r i = Inr (ws i)"
    by metis
  have run: "make_request env server endpoint ps auth =
     (let later = attempts server req (k # [Suc k..<MAX_RETRIES + 1]) in
      later\<lparr>sent := replicate k req @ sent later, slept := map ws [0..<k] @ slept later,
             key_lookups := (if auth then 1 else 0)\<rparr>)"
    using built ws k by (rule run_after_retries)
  show ?thesis
  proof (intro conjI impI)
    assume ok: "200 \<le> status_code r \<and> status_code r < 300 \<and> body r = Some b"
    then have "status_code r \<notin> RETRY_STATUSES" by (auto simp: RETRY_STATUSES_def)
    then have "attempts server req (k # [Suc k..<MAX_RETRIES + 1]) = stop (Returned b) req"
      using ok by (subst attempts_last [of server req k r, OF last]) auto
    then show "outcome (make_request env server endpoint ps auth) = Returned b"
      and "length (sent (make_request env server endpoint ps auth)) = k + 1"
      by (simp_all add: run stop_def)
  next
    assume ex: "k = MAX_RETRIES \<and> status_code r \<in> RETRY_STATUSES"
    then have "400 \<le> status_code r \<and> status_code r < 600" by (auto simp: RETRY_STATUSES_def)
    then have "attempts server req (k # [Suc k..<MAX_RETRIES + 1]) =
        stop (SysExit 1 (''[red]Error: HTTP '' @ py_str_int (status_code r) @ ''[/red]'')) req"
      using ex by (subst attempts_last [of server req k r, OF last]) auto
    then show "outcome (make_request env server endpoint ps auth) =
              SysExit 1 (''[red]Error: HTTP '' @ py_str_int (status_code r) @ ''[/red]'')"
      and "length (sent (make_request env server endpoint ps auth)) = 4"
      using ex by (simp_all add: run stop_def MAX_RETRIES_def)
  next
    assume bad: "status_code r \<notin> RETRY_STATUSES \<and> 400 \<le> status_code r \<and> status_code r < 600"
    then have "attempts server req (k # [Suc k..<MAX_RETRIES + 1]) =
        stop (SysExit 1 (''[red]Error: HTTP '' @ py_str_int (status_code r) @ ''[/red]'')) req"
      by (subst attempts_last [of server req k r, OF last]) auto
    then show "outcome (make_request env server endpoint ps auth) =
              SysExit 1 (''[red]Error: HTTP '' @ py_str_int (status_code r) @ ''[/red]'')"
      and "length (sent (make_request env server endpoint ps auth)) = k + 1"
      by (simp_all add: run stop_def)
  qed
qed


text \<open>
  C3 fails on the code. A reply with the retryable status 429 whose \<open>Retry-After\<close> value is
  the character superscript two passes the \<open>isdigit\<close> test of line 76, \<open>int\<close> raises
  \<open>ValueError\<close> on line 77, and no handler of \<open>make_request\<close> lists it: the call ends after
  one GET, without a wait and without the retry that would have met status 200.
\<close>

theorem superscript_hint_ends_the_call:
  "429 \<in> RETRY_STATUSES
   \<and> py_isdigit superscript_two
   \<and> hint_then_ok superscript_two posts_request 1 =
       Response \<lparr>status_code = 200, retry_after = None, body = Some (JDict [])\<rparr>
   \<and> make_request env_with_key (hint_then_ok superscript_two) ''posts'' None False =
       \<lparr>outcome = Uncaught ValueError, sent = [posts_request], slept = [], key_lookups = 0\<rparr>"
proof -
  have up: "[0..<MAX_RETRIES + 1] = 0 # [1..<MAX_RETRIES + 1]"
    by (simp add: upt_conv_Cons)
  have d: "py_isdigit superscript_two" "\<not> list_all ascii_digit superscript_two"
    by (simp_all add: py_isdigit_def superscript_two_def ascii_digit_def)
  then have "wait_seconds \<lparr>status_code = 429, retry_after = Some superscript_two, body = None\<rparr> 0 =
      Inl ValueError"
    by (simp add: wait_seconds_def chosen_wait_def py_int_def and_then_def superscript_two_def)
  then have "make_request env_with_key (hint_then_ok superscript_two) ''posts'' None False =
       \<lparr>outcome = Uncaught ValueError, sent = [posts_request], slept = [], key_lookups = 0\<rparr>"
    unfolding make_request_def build_posts up
    by (simp add: hint_then_ok_def RETRY_STATUSES_def MAX_RETRIES_def stop_def)
  with d show ?thesis
    by (simp add: RETRY_STATUSES_def hint_then_ok_def)
qed

text \<open>
  What the loop does with a hint that is a numeral of at most 4300 digits and at most
  9223372036: the wait after attempt \<open>n\<close> is the number the hint denotes.
\<close>

lemma numeric_hint_is_the_wait:
  assumes built: "build_request env endpoint ps auth = Inr req"
    and retry: "\<forall>i<n. \<exists>r w. server req i = Response r \<and> status_code r \<in> RETRY_STATUSES
                        \<and> wait_seconds r i = Inr w"
    and n: "n < MAX_RETRIES"
    and here: "server req n = Response r" "status_code r \<in> RETRY_STATUSES"
    and hint: "retry_after r = Some h" "h \<noteq> []" "list_all ascii_digit h"
      "length h \<le> 4300" "decimal_value h \<le> 9223372036"
  shows "n < length (slept (make_request env server endpoint ps auth))
         \<and> slept (make_request env server endpoint ps auth) ! n = decimal_value h"
  using built retry n here wait_seconds_hint [OF hint] by (rule nth_wait)

text \<open>
  C4 fails on the code. A reply with the retryable status 429 and the numeric hint
  \<open>10000000000\<close> gives \<open>wait_seconds\<close> that value on line 77, and \<open>time.sleep\<close> raises
  \<open>OverflowError\<close> on line 80, which no handler of \<open>make_request\<close> lists: the call ends after
  one GET and no wait of the hinted length (nor any other) takes place.
\<close>

theorem huge_hint_ends_the_call:
  "429 \<in> RETRY_STATUSES
   \<and> py_isdigit ''10000000000''
   \<and> chosen_wait \<lparr>status_code = 429, retry_after = Some ''10000000000'', body = None\<rparr> 0 =
       Inr 10000000000
   \<and> make_request env_with_key (hint_then_ok ''10000000000'') ''posts'' None False =
       \<lparr>outcome = Uncaught OverflowError, sent = [posts_request], slept = [], key_lookups = 0\<rparr>"
proof -
  have up: "[0..<MAX_RETRIES + 1] = 0 # [1..<MAX_RETRIES + 1]"
    by (simp add: upt_conv_Cons)
  have d: "py_isdigit ''10000000000''"
    by (simp add: py_isdigit_def ascii_digit_def)
  have c: "chosen_wait \<lparr>status_code = 429, retry_after = Some ''10000000000'', body = None\<rparr> 0 =
       Inr 10000000000"
    by (simp add: chosen_wait_def py_isdigit_def py_int_def ascii_digit_def)
  then have "wait_seconds \<lparr>status_code = 429, retry_after = Some ''10000000000'', body = None\<rparr> 0 =
      Inl OverflowError"
    by (simp add: wait_seconds_def time_sleep_def and_then_def)
  then have "make_request env_with_key (hint_then_ok ''10000000000'') ''posts'' None False =
       \<lparr>outcome = Uncaught OverflowError, sent = [posts_request], slept = [], key_lookups = 0\<rparr>"
    unfolding make_request_def build_posts up
    by (simp add: hint_then_ok_def RETRY_STATUSES_def MAX_RETRIES_def stop_def)
  with d c show ?thesis
    by (simp add: RETRY_STATUSES_def)
qed

text \<open>
  C5. When the reply to attempt \<open>n\<close> (counted from 0) is retryable and carries no usable
  hint, the wait before the next attempt is 1.5 to the power \<open>n\<close> rounded toward zero: 1 for
  attempts 0 and 1, 2 for attempt 2.
\<close>

theorem backoff_is_the_wait:
  assumes built: "build_request env endpoint ps auth = Inr req"
    and retry: "\<forall>i<n. \<exists>r w. server req i = Response r \<and> status_code r \<in> RETRY_STATUSES
                        \<and> wait_seconds r i = Inr w"
    and n: "n < MAX_RETRIES"
    and here: "server req n = Response r" "status_code r \<in> RETRY_STATUSES"
    and nohint: "\<forall>h. retry_after r = Some h \<longrightarrow> \<not> py_isdigit h"
  shows "n < length (slept (make_request env server endpoint ps auth))
         \<and> slept (make_request env server endpoint ps auth) ! n = \<lfloor>(3 / 2 :: rat) ^ n\<rfloor>
         \<and> slept (make_request env server endpoint ps auth) ! n = (if n = 2 then 2 else 1)"
proof -
  have w: "n < length (slept (make_request env server endpoint ps auth))
         \<and> slept (make_request env server endpoint ps auth) ! n = \<lfloor>(3 / 2 :: rat) ^ n\<rfloor>"
    using built retry n here wait_seconds_backoff [OF nohint n] by (rule nth_wait)
  with backoff_values [OF n] show ?thesis by simp
qed

theorem backoff_is_the_wait_witness:
  "slept (make_request env_with_key always_busy ''posts'' None False) ! 2 = 2"
proof -
  have r2: "\<forall>i<2. \<exists>r w. always_busy posts_request i = Response r
      \<and> status_code r \<in> RETRY_STATUSES \<and> wait_seconds r i = Inr w"
    by (simp add: always_busy_def RETRY_STATUSES_def wait_seconds_no_hint MAX_RETRIES_def)
  have l2: "always_busy posts_request 2 =
      Response \<lparr>status_code = 503, retry_after = None, body = None\<rparr>"
    by (simp add: always_busy_def)
  have k: "2 < MAX_RETRIES" by (simp add: MAX_RETRIES_def)
  show ?thesis
    using backoff_is_the_wait [where server = always_busy, OF build_posts r2 k l2]
    by (simp add: RETRY_STATUSES_def)
qed

text \<open>
  C9. One call of \<open>make_request\<close> resolves the credential at most once, every GET of the
  call is the same request, and the Authorization header is on all of them, with the
  resolved key as bearer token, or on none.
\<close>

theorem headers_fixed_per_request:
  "key_lookups (make_request env server endpoint ps auth) \<le> 1
   \<and> (\<forall>q \<in> set (sent (make_request env server endpoint ps auth)).
        \<forall>q' \<in> set (sent (make_request env server endpoint ps auth)). q = q')
   \<and> (\<forall>q \<in> set (sent (make_request env server endpoint ps auth)).
        map_of (headers q) ''Authorization'' =
          (case get_api_key env of
             Inr key \<Rightarrow> if auth \<and> truthy key then Some (Bearer key) else None
           | Inl e \<Rightarrow> None))"
proof (cases "build_request env endpoint ps auth")
  case (Inl e)
  then show ?thesis by (simp add: make_request_def)
next
  case (Inr req)
  then have same: "\<And>q. q \<in> set (sent (make_request env server endpoint ps auth)) \<Longrightarrow> q = req"
    by (auto simp: make_request_def dest: attempts_sent)
  have hd: "map_of (headers req) ''Authorization'' =
          (case get_api_key env of
             Inr key \<Rightarrow> if auth \<and> truthy key then Some (Bearer key) else None
           | Inl e \<Rightarrow> None)"
    using Inr by (auto simp: build_request_def Let_def split: if_splits sum.splits)
  have "key_lookups (make_request env server endpoint ps auth) \<le> 1"
    using Inr by (simp add: make_request_def)
  with same hd show ?thesis by (auto dest!: same)
qed

theorem headers_fixed_per_request_witness:
  "key_lookups (make_request env_with_key busy_twice ''search'' None True) \<le> 1
   \<and> length (sent (make_request env_with_key busy_twice ''search'' None True)) = 3
   \<and> map (\<lambda>q. map_of (headers q) ''Authorization'')
         (sent (make_request env_with_key busy_twice ''search'' None True)) =
       replicate 3 (Some (Bearer (JStr ''k'')))"
proof -
  let ?run = "make_request env_with_key busy_twice ''search'' None True"
  have g: "get_api_key env_with_key = Inr (JStr ''k'')"
    by (simp add: get_api_key_def env_with_key_def)
  have b: "build_request env_with_key ''search'' None True =
      Inr \<lparr>url = BASE_URL @ ''/search'',
           headers = [(''User-Agent'', Text ''Moltbook-Reader/1.0''),
                      (''Authorization'', Bearer (JStr ''k''))], params = None\<rparr>"
    by (simp add: build_request_def g)
  have up: "[0..<MAX_RETRIES + 1] = [0, 1, 2, 3]"
    by (simp add: MAX_RETRIES_def upt_conv_Cons)
  have len: "length (sent ?run) = 3"
    unfolding make_request_def b up
    by (simp add: busy_twice_def MAX_RETRIES_def RETRY_STATUSES_def wait_seconds_no_hint
        Let_def stop_def)
  from headers_fixed_per_request [of env_with_key busy_twice "''search''" None True]
  have one: "key_lookups ?run \<le> 1"
    and all: "\<forall>q \<in> set (sent ?run).
        map_of (headers q) ''Authorization'' = Some (Bearer (JStr ''k''))"
    by (simp_all add: g)
  from all have "map (\<lambda>q. map_of (headers q) ''Authorization'') (sent ?run) =
      map (\<lambda>q. Some (Bearer (JStr ''k''))) (sent ?run)"
    by (intro map_cong) simp_all
  then have "map (\<lambda>q. map_of (headers q) ''Authorization'') (sent ?run) =
      replicate (length (sent ?run)) (Some (Bearer (JStr ''k'')))"
    by (simp add: map_replicate_const)
  with one len show ?thesis by simp
qed

section \<open>Properties of the timestamp helper\<close>

text \<open>
  C7. \<open>format_timestamp\<close> turns \<open>2024-01-15T10:30:00Z\<close> into \<open>2024-01-15 10:30\<close>; and
  whatever the library's parser and formatter are, a string whose parse fails (after its
  \<open>Z\<close> has been replaced by the UTC offset) is returned unchanged.
\<close>

theorem format_timestamp_spec:
  "format_timestamp fromisoformat strftime ''2024-01-15T10:30:00Z'' = ''2024-01-15 10:30''
   \<and> (parse (replace_char CHR ''Z'' ''+00:00'' s) = None \<longrightarrow> format_timestamp parse fmt s = s)"
proof
  show "format_timestamp fromisoformat strftime ''2024-01-15T10:30:00Z'' = ''2024-01-15 10:30''"
    by code_simp
  show "parse (replace_char CHR ''Z'' ''+00:00'' s) = None \<longrightarrow> format_timestamp parse fmt s = s"
    by (simp add: format_timestamp_def)
qed

theorem format_timestamp_spec_witness:
  "fromisoformat (replace_char CHR ''Z'' ''+00:00'' ''yesterday'') = None
   \<and> format_timestamp fromisoformat strftime ''yesterday'' = ''yesterday''"
proof -
  have "fromisoformat (replace_char CHR ''Z'' ''+00:00'' ''yesterday'') = None"
    by code_simp
  with format_timestamp_spec [of fromisoformat "''yesterday''" strftime]
  show ?thesis by simp
qed


section \<open>Properties of credential resolution\<close>

text \<open>
  What the handler of \<open>get_api_key\<close> covers: a key in the environment variable is returned
  whatever the file is; without one, an absent, unreadable or malformed file gives no
  credential, and a JSON object gives its \<open>api_key\<close> field.
\<close>

lemma get_api_key_handled:
  "(k \<noteq> [] \<longrightarrow> get_api_key \<lparr>MOLTBOOK_API_KEY = Some k, credentials_json = f\<rparr> = Inr (JStr k))
   \<and> (e = None \<or> e = Some [] \<longrightarrow>
        get_api_key \<lparr>MOLTBOOK_API_KEY = e, credentials_json = Absent\<rparr> = Inr JNull
        \<and> get_api_key \<lparr>MOLTBOOK_API_KEY = e, credentials_json = Unreadable\<rparr> = Inr JNull
        \<and> get_api_key \<lparr>MOLTBOOK_API_KEY = e, credentials_json = Malformed\<rparr> = Inr JNull
        \<and> get_api_key \<lparr>MOLTBOOK_API_KEY = e, credentials_json = Loaded (JDict kvs)\<rparr> =
            Inr (case map_of kvs ''api_key'' of Some v \<Rightarrow> v | None \<Rightarrow> JNull))"
  by (auto simp: get_api_key_def)


text \<open>
  C8 fails on the code. With no key in the environment variable, a credentials file whose
  bytes do not decode, or whose JSON content is not an object, makes \<open>get_api_key\<close> raise
  an exception that its handler does not list; \<open>make_request\<close> then ends before any GET,
  where the claim has it proceed without a credential.
\<close>

theorem get_api_key_escapes:
  "get_api_key \<lparr>MOLTBOOK_API_KEY = None, credentials_json = Undecodable\<rparr> = Inl UnicodeDecodeError
   \<and> get_api_key \<lparr>MOLTBOOK_API_KEY = None, credentials_json = Loaded (JList [])\<rparr> = Inl AttributeError
   \<and> outcome (make_request \<lparr>MOLTBOOK_API_KEY = None, credentials_json = Undecodable\<rparr>
        server ''search'' None True) = Uncaught UnicodeDecodeError
   \<and> sent (make_request \<lparr>MOLTBOOK_API_KEY = None, credentials_json = Undecodable\<rparr>
        server ''search'' None True) = []"
  by (simp add: get_api_key_def make_request_def build_request_def)


section \<open>Properties of the response renderer\<close>












lemma emit_literal [simp]:
  "emit console (Print t) = Inr [Print t]" "emit console Blank = Inr [Blank]"
  by (simp_all add: emit_def)


lemma in_order_Nil [simp]: "in_order [] = Inr []"
  by (simp add: in_order_def)



















lemma make_request_replies_with:
  "outcome (make_request env (replies_with b) endpoint None False) = Returned b"
proof -
  have up: "[0..<MAX_RETRIES + 1] = 0 # [1..<MAX_RETRIES + 1]"
    by (simp add: upt_conv_Cons)
  show ?thesis
    unfolding make_request_def build_request_def up
    by (simp add: replies_with_def RETRY_STATUSES_def stop_def)
qed




text \<open>
  C10. When the request returns an object whose \<open>post\<close> field is missing or holds any value
  that counts as false (among them \<open>null\<close>, the empty object and the empty text), \<open>fetch\<close>
  prints the one notice \<open>Post not found\<close>, no panel, and ends with exit status 0.
\<close>

theorem fetch_post_not_found:
  assumes "outcome (make_request env server (''posts/'' @ post_id) None False) =
             Returned (JDict entries)"
    and "map_of entries ''post'' = None \<or> (\<exists>p. map_of entries ''post'' = Some p \<and> \<not> truthy p)"
  shows "fetch env server console post_id False =
           \<lparr>printed = [Print ''[red]Post not found[/red]''], exit_status = 0\<rparr>
         \<and> \<not> truthy JNull \<and> \<not> truthy (JDict []) \<and> \<not> truthy (JStr [])"
  using assms
  by (auto simp: fetch_def finish_def render_fetch_def and_then_def returning_def)

theorem fetch_post_not_found_witness:
  "fetch env_with_key (replies_with (JDict [])) prints_all ''p1'' False =
     \<lparr>printed = [Print ''[red]Post not found[/red]''], exit_status = 0\<rparr>
   \<and> fetch env_with_key (replies_with (JDict [(''post'', JNull)])) prints_all ''p1'' False =
     \<lparr>printed = [Print ''[red]Post not found[/red]''], exit_status = 0\<rparr>
   \<and> fetch env_with_key (replies_with (JDict [(''post'', JDict [])])) prints_all ''p1'' False =
     \<lparr>printed = [Print ''[red]Post not found[/red]''], exit_status = 0\<rparr>
   \<and> fetch env_with_key (replies_with (JDict [(''post'', JStr [])])) prints_all ''p1'' False =
     \<lparr>printed = [Print ''[red]Post not found[/red]''], exit_status = 0\<rparr>"
  using
    fetch_post_not_found [OF make_request_replies_with,
      where entries = "[]" and env = env_with_key and post_id = "''p1''" and console = prints_all]
    fetch_post_not_found [OF make_request_replies_with,
      where entries = "[(''post'', JNull)]" and env = env_with_key and post_id = "''p1''"
        and console = prints_all]
    fetch_post_not_found [OF make_request_replies_with,
      where entries = "[(''post'', JDict [])]" and env = env_with_key and post_id = "''p1''"
        and console = prints_all]
    fetch_post_not_found [OF make_request_replies_with,
      where entries = "[(''post'', JStr [])]" and env = env_with_key and post_id = "''p1''"
        and console = prints_all]
  by simp




end
